theory Spec2Isabelle
  imports Main "HOL-Library.Sublist"
begin

section \<open>Python values, exceptions and the environment\<close>

text \<open>
  The agents are dynamically typed: a stage context, a provider response and a payload
  are arbitrary JSON-like Python values. They are modelled by \<open>pyval\<close>; a dict is an
  association list with string keys (looked up with \<open>map_of\<close>). A number is an
  integer (a float behaves like an integer for every operation used here: it has no
  attributes, no length and no slicing).

  A Python \<open>str\<close> is a HOL \<open>string\<close> whose characters are the code points below 256.
  The few literals of the source with characters above that range (the display names
  of the languages, an emoji, a bullet) are opaque labels; they are written as their
  UTF-8 bytes.
\<close>

datatype pyval =
    PNone
  | PBool bool
  | PInt int
  | PStr string
  | PList "pyval list"
  | PDict "(string \<times> pyval) list"

type_synonym pydict = "(string \<times> pyval) list"

text \<open>An exception that a Python operation or an external call raises.\<close>

datatype exn =
    AttributeError
  | TypeError
  | KeyError
  | IndexError
  | ValueError
  | ExternalError string

text \<open>Truthiness, as \<open>if x\<close> and \<open>not x\<close> compute it.\<close>

fun truthy :: "pyval \<Rightarrow> bool" where
  "truthy PNone = False"
| "truthy (PBool b) = b"
| "truthy (PInt i) = (i \<noteq> 0)"
| "truthy (PStr s) = (s \<noteq> [])"
| "truthy (PList xs) = (xs \<noteq> [])"
| "truthy (PDict d) = (d \<noteq> [])"

definition has_key :: "string \<Rightarrow> pydict \<Rightarrow> bool" where
  "has_key k d = (map_of d k \<noteq> None)"

definition dict_get :: "pydict \<Rightarrow> string \<Rightarrow> pyval \<Rightarrow> pyval" where
  "dict_get d k dflt = (case map_of d k of None \<Rightarrow> dflt | Some v \<Rightarrow> v)"

text \<open>\<open>v.get(k, dflt)\<close>: only a dict has the method.\<close>

definition py_get :: "pyval \<Rightarrow> string \<Rightarrow> pyval \<Rightarrow> exn + pyval" where
  "py_get v k dflt = (case v of PDict d \<Rightarrow> Inr (dict_get d k dflt) | _ \<Rightarrow> Inl AttributeError)"

text \<open>\<open>v[k]\<close> with a string key.\<close>

definition subscript_key :: "pyval \<Rightarrow> string \<Rightarrow> exn + pyval" where
  "subscript_key v k =
     (case v of
        PDict d \<Rightarrow> (case map_of d k of None \<Rightarrow> Inl KeyError | Some x \<Rightarrow> Inr x)
      | _ \<Rightarrow> Inl TypeError)"

section \<open>Stage Context Protocol: the extraction functions of the four agents\<close>

text \<open>
  The loop \<open>for item in context: if isinstance(item, dict) and key in item: return item\<close>
  of the formatting, translating and send agents; falling off the loop returns None.
\<close>

fun first_dict_with :: "string \<Rightarrow> pyval list \<Rightarrow> pydict option" where
  "first_dict_with k [] = None"
| "first_dict_with k (PDict d # xs) = (if has_key k d then Some d else first_dict_with k xs)"
| "first_dict_with k (_ # xs) = first_dict_with k xs"

text \<open>\<open>SummaryAgent._extract_search_data\<close>.\<close>

definition extract_search_data :: "pyval \<Rightarrow> pydict option" where
  "extract_search_data context =
     (if \<not> truthy context then None
      else case context of
        PDict d \<Rightarrow> Some d
      | PList xs \<Rightarrow>
          (if length xs > 0 then (case hd xs of PDict d \<Rightarrow> Some d | _ \<Rightarrow> None) else None)
      | _ \<Rightarrow> None)"

text \<open>\<open>FormattingAgent._extract_summary_data\<close>.\<close>

definition extract_summary_data :: "pyval \<Rightarrow> pydict option" where
  "extract_summary_data context =
     (if \<not> truthy context then None
      else case context of
        PDict d \<Rightarrow> Some d
      | PList xs \<Rightarrow> (if length xs > 0 then first_dict_with ''summary'' xs else None)
      | _ \<Rightarrow> None)"

text \<open>
  \<open>TranslatingAgent._extract_formatted_data\<close> and \<open>SendAgent._extract_formatted_data\<close>
  have the same body.
\<close>

definition extract_formatted_data :: "pyval \<Rightarrow> pydict option" where
  "extract_formatted_data context =
     (if \<not> truthy context then None
      else case context of
        PDict d \<Rightarrow> Some d
      | PList xs \<Rightarrow> (if length xs > 0 then first_dict_with ''formatted_summary'' xs else None)
      | _ \<Rightarrow> None)"

text \<open>
  The spec's words for a sequence: the first element that is a record containing the
  required key, and None when there is none.
\<close>

definition is_record_with :: "string \<Rightarrow> pyval \<Rightarrow> bool" where
  "is_record_with k v = (case v of PDict d \<Rightarrow> has_key k d | _ \<Rightarrow> False)"

definition spec_first_record :: "string \<Rightarrow> pyval list \<Rightarrow> pyval option" where
  "spec_first_record k xs = find (is_record_with k) xs"

section \<open>String operations of Python\<close>

text \<open>\<open>str.lower()\<close> on the code points below 256: the ASCII and the Latin-1 capitals.\<close>

definition upper_chars :: string where
  "upper_chars = ''ABCDEFGHIJKLMNOPQRSTUVWXYZ'' @
     [CHR 0xC0, CHR 0xC1, CHR 0xC2, CHR 0xC3, CHR 0xC4, CHR 0xC5, CHR 0xC6, CHR 0xC7, CHR 0xC8,
      CHR 0xC9, CHR 0xCA, CHR 0xCB, CHR 0xCC, CHR 0xCD, CHR 0xCE, CHR 0xCF, CHR 0xD0, CHR 0xD1,
      CHR 0xD2, CHR 0xD3, CHR 0xD4, CHR 0xD5, CHR 0xD6, CHR 0xD8, CHR 0xD9, CHR 0xDA, CHR 0xDB,
      CHR 0xDC, CHR 0xDD, CHR 0xDE]"

definition lower_chars :: string where
  "lower_chars = ''abcdefghijklmnopqrstuvwxyz'' @
     [CHR 0xE0, CHR 0xE1, CHR 0xE2, CHR 0xE3, CHR 0xE4, CHR 0xE5, CHR 0xE6, CHR 0xE7, CHR 0xE8,
      CHR 0xE9, CHR 0xEA, CHR 0xEB, CHR 0xEC, CHR 0xED, CHR 0xEE, CHR 0xEF, CHR 0xF0, CHR 0xF1,
      CHR 0xF2, CHR 0xF3, CHR 0xF4, CHR 0xF5, CHR 0xF6, CHR 0xF8, CHR 0xF9, CHR 0xFA, CHR 0xFB,
      CHR 0xFC, CHR 0xFD, CHR 0xFE]"

definition py_lower_char :: "char \<Rightarrow> char" where
  "py_lower_char c = (case map_of (zip upper_chars lower_chars) c of None \<Rightarrow> c | Some l \<Rightarrow> l)"

definition py_lower :: "string \<Rightarrow> string" where
  "py_lower s = map py_lower_char s"

text \<open>\<open>str.isspace\<close> on one character: the whitespace code points below 256.\<close>

definition py_isspace :: "char \<Rightarrow> bool" where
  "py_isspace c = (c \<in> set [CHR 0x09, CHR 0x0A, CHR 0x0B, CHR 0x0C, CHR 0x0D, CHR 0x1C,
   CHR 0x1D,
     CHR 0x1E, CHR 0x1F, CHR 0x20, CHR 0x85, CHR 0xA0])"

definition py_strip :: "string \<Rightarrow> string" where
  "py_strip s = rev (dropWhile py_isspace (rev (dropWhile py_isspace s)))"

text \<open>\<open>needle in s\<close> for strings.\<close>

fun py_contains :: "string \<Rightarrow> string \<Rightarrow> bool" where
  "py_contains n [] = (n = [])"
| "py_contains n (c # cs) = (prefix n (c # cs) \<or> py_contains n cs)"

text \<open>\<open>sep.join(xs)\<close>.\<close>

fun py_join :: "string \<Rightarrow> string list \<Rightarrow> string" where
  "py_join sep [] = []"
| "py_join sep [x] = x"
| "py_join sep (x # y # ys) = x @ sep @ py_join sep (y # ys)"

text \<open>
  \<open>s.split(sep)\<close> for a non-empty separator (the source only passes the literals
  \<open>'\n'\<close> and \<open>'\n\n'\<close>): cut at the leftmost occurrences, empty pieces kept.
\<close>

function py_split :: "string \<Rightarrow> string \<Rightarrow> string list" where
  "py_split sep [] = [[]]"
| "py_split sep (c # cs) =
     (if sep \<noteq> [] \<and> prefix sep (c # cs)
      then [] # py_split sep (drop (length sep) (c # cs))
      else (case py_split sep cs of p # ps \<Rightarrow> (c # p) # ps | [] \<Rightarrow> [[c]]))"
  by pat_completeness auto
termination
  by (relation "measure (\<lambda>(sep, s). length s)") auto

text \<open>\<open>s.split()\<close>: the maximal runs of non-whitespace characters.\<close>

function py_words :: "string \<Rightarrow> string list" where
  "py_words s =
     (case dropWhile py_isspace s of
        [] \<Rightarrow> []
      | c # cs \<Rightarrow> takeWhile (\<lambda>x. \<not> py_isspace x) (c # cs)
                 # py_words (dropWhile (\<lambda>x. \<not> py_isspace x) cs))"
  by pat_completeness auto
termination
proof (relation "measure length")
  show "wf (measure length)" by simp
next
  fix s :: string and c cs
  assume a: "dropWhile py_isspace s = c # cs"
  have "length (dropWhile (\<lambda>x. \<not> py_isspace x) cs) \<le> length cs"
    by (rule length_dropWhile_le)
  also have "length cs < length (dropWhile py_isspace s)"
    using a by simp
  also have "\<dots> \<le> length s"
    by (rule length_dropWhile_le)
  finally show "(dropWhile (\<lambda>x. \<not> py_isspace x) cs, s) \<in> measure length"
    by simp
qed

declare py_words.simps [simp del]

text \<open>Decimal rendering of a loop counter in an f-string.\<close>

fun py_str_nat :: "nat \<Rightarrow> string" where
  "py_str_nat n =
     (if n < 10 then [''0123456789'' ! n]
      else py_str_nat (n div 10) @ [''0123456789'' ! (n mod 10)])"

text \<open>\<open>v[:n]\<close>: a list and a string can be sliced, everything else raises
  (for a dict the class of the exception depends on the Python version).\<close>

definition py_slice_to :: "nat \<Rightarrow> pyval \<Rightarrow> exn + pyval" where
  "py_slice_to n v =
     (case v of
        PList xs \<Rightarrow> Inr (PList (take n xs))
      | PStr s \<Rightarrow> Inr (PStr (take n s))
      | _ \<Rightarrow> Inl TypeError)"

text \<open>\<open>for x in v\<close>: the elements of a list, the characters of a string, the keys of a dict.\<close>

definition py_iter :: "pyval \<Rightarrow> exn + pyval list" where
  "py_iter v =
     (case v of
        PList xs \<Rightarrow> Inr xs
      | PStr s \<Rightarrow> Inr (map (\<lambda>c. PStr [c]) s)
      | PDict d \<Rightarrow> Inr (map (\<lambda>kv. PStr (fst kv)) d)
      | _ \<Rightarrow> Inl TypeError)"

text \<open>\<open>len(v)\<close>.\<close>

definition py_len :: "pyval \<Rightarrow> exn + nat" where
  "py_len v =
     (case v of
        PList xs \<Rightarrow> Inr (length xs)
      | PStr s \<Rightarrow> Inr (length s)
      | PDict d \<Rightarrow> Inr (length d)
      | _ \<Rightarrow> Inl TypeError)"

text \<open>\<open>v[0]\<close>: a dict with string keys has no key 0.\<close>

definition py_first :: "pyval \<Rightarrow> exn + pyval" where
  "py_first v =
     (case v of
        PList xs \<Rightarrow> (case xs of [] \<Rightarrow> Inl IndexError | x # _ \<Rightarrow> Inr x)
      | PStr s \<Rightarrow> (case s of [] \<Rightarrow> Inl IndexError | c # _ \<Rightarrow> Inr (PStr [c]))
      | PDict d \<Rightarrow> Inl KeyError
      | _ \<Rightarrow> Inl TypeError)"

section \<open>The environment: configuration, clock and external services\<close>

text \<open>
  What the PDF generator appends to its story: the paragraphs, spacers and images of
  the layout library, as data. Constructing a paragraph is total here; the library's
  rejection of a text with malformed markup is not modelled.
\<close>

datatype style = TitleStyle | HeadingStyle | NormalStyle | ItalicStyle | BaseNormalStyle

datatype flowable =
    Paragraph string style
  | Spacer nat nat
  | Image nat nat

text \<open>
  Everything outside the repository is a field of the environment: the credentials read
  by \<open>os.getenv\<close>, the clock, the HTTP endpoints, the language model, \<open>urlparse\<close>
  (its scheme and netloc), the PDF library and Python's rendering of a non-string value
  or an exception in an f-string. An external call returns \<open>Inl\<close> when it raises.
  Within one run each service answers a request by its content.
\<close>

record env =
  serper_api_key :: "string option"
  tavily_api_key :: "string option"
  telegram_token :: "string option"
  telegram_chat_id :: "string option"
  now_iso :: string
  now_stamp :: string
  now_date :: string
  now_long :: string
  serper_post :: "string \<Rightarrow> exn + pyval"
  tavily_post :: "string \<Rightarrow> exn + pyval"
  summary_completion :: "string \<Rightarrow> exn + pyval"
  translate_completion :: "string \<Rightarrow> string \<Rightarrow> string \<Rightarrow> exn + pyval"
  telegram_send_message :: "string \<Rightarrow> exn + pyval"
  telegram_send_photo :: "pyval \<Rightarrow> pyval \<Rightarrow> exn + pyval"
  urlparse :: "string \<Rightarrow> exn + (string \<times> string)"
  fetch_image :: "string \<Rightarrow> exn + (nat \<times> nat)"
  doc_build :: "string \<Rightarrow> flowable list \<Rightarrow> exn option"
  str_of :: "pyval \<Rightarrow> string"
  exn_str :: "exn \<Rightarrow> string"

text \<open>A credential is usable when \<open>os.getenv\<close> returned a non-empty string.\<close>

definition configured :: "string option \<Rightarrow> bool" where
  "configured k = (case k of None \<Rightarrow> False | Some s \<Rightarrow> s \<noteq> [])"

text \<open>\<open>str(v)\<close> as an f-string inserts it: a string is itself.\<close>

definition py_str :: "env \<Rightarrow> pyval \<Rightarrow> string" where
  "py_str E v = (case v of PStr s \<Rightarrow> s | _ \<Rightarrow> str_of E v)"

section \<open>Formatting agent\<close>

text \<open>\<open>FormattingAgent._get_fallback_images\<close>.\<close>

definition get_fallback_images :: "pyval list" where
  "get_fallback_images =
     [PDict [(''url'', PStr ''https://via.placeholder.com/600x400/0066cc/ffffff?text=Stock+Market+Chart''),
             (''title'', PStr ''Stock Market Performance Chart''),
             (''source'', PStr ''Fallback''),
             (''search_term'', PStr ''stock market'')],
      PDict [(''url'', PStr ''https://via.placeholder.com/600x400/009900/ffffff?text=Trading+Volume+Graph''),
             (''title'', PStr ''Trading Volume Analysis''),
             (''source'', PStr ''Fallback''),
             (''search_term'', PStr ''trading volume'')]]"

definition image_extensions :: "string list" where
  "image_extensions = [''.jpg'', ''.jpeg'', ''.png'', ''.gif'', ''.svg'', ''.webp'']"

text \<open>
  \<open>FormattingAgent._is_valid_image_url\<close>. \<open>urlparse\<close> of a value that is not a string
  raises inside the \<open>try\<close>, which answers False.
\<close>

definition is_valid_image_url :: "env \<Rightarrow> pyval \<Rightarrow> bool" where
  "is_valid_image_url E url =
     (if \<not> truthy url then False
      else case url of
        PStr u \<Rightarrow>
          (case urlparse E u of
             Inl e \<Rightarrow> False
           | Inr (scheme, netloc) \<Rightarrow>
               if scheme = [] \<or> netloc = [] then False
               else list_ex (\<lambda>ext. suffix ext (py_lower u)) image_extensions
                    \<or> py_contains ''image'' (py_lower u))
      | _ \<Rightarrow> False)"

definition financial_terms :: "string list" where
  "financial_terms =
     [''stock market'', ''trading'', ''earnings'', ''S&P 500'', ''Dow Jones'',
      ''NASDAQ'', ''NYSE'', ''futures'', ''commodities'', ''bonds'', ''forex'',
      ''cryptocurrency'', ''bitcoin'', ''market chart'', ''financial graph'']"

text \<open>\<open>FormattingAgent._extract_search_terms\<close>: \<open>.lower()\<close> raises on a non-string.\<close>

definition extract_search_terms :: "pyval \<Rightarrow> exn + string list" where
  "extract_search_terms summary_text =
     (case summary_text of
        PStr s \<Rightarrow>
          (let summary_lower = py_lower s;
               found_terms = filter (\<lambda>term. py_contains term summary_lower) financial_terms;
               found_terms = (if found_terms = []
                              then [''stock market chart'', ''financial market graph'']
                              else found_terms)
           in Inr (take 3 found_terms))
      | _ \<Rightarrow> Inl AttributeError)"

text \<open>
  The inner loop of \<open>_search_images_serper\<close> over \<open>data.get('images', [])[:1]\<close>:
  each valid hit appends a descriptor.
\<close>

fun serper_harvest :: "env \<Rightarrow> string \<Rightarrow> pyval list \<Rightarrow> pyval list \<Rightarrow> exn + pyval list" where
  "serper_harvest E term [] images = Inr images"
| "serper_harvest E term (img # rest) images =
     (case py_get img ''imageUrl'' (PStr []) of
        Inl e \<Rightarrow> Inl e
      | Inr u \<Rightarrow>
          if is_valid_image_url E u
          then serper_harvest E term rest
                 (images @ [PDict [(''url'', u),
                                   (''title'', (case img of PDict d \<Rightarrow> dict_get d ''title'' (PStr term)
                                                | _ \<Rightarrow> PStr term)),
                                   (''source'', PStr ''Serper''),
                                   (''search_term'', PStr term)]])
          else serper_harvest E term rest images)"

text \<open>The outer loop over \<open>search_terms[:2]\<close>; the value of \<open>response.json()\<close> is \<open>data\<close>.\<close>

fun serper_loop :: "env \<Rightarrow> string list \<Rightarrow> pyval list \<Rightarrow> exn + pyval list" where
  "serper_loop E [] images = Inr images"
| "serper_loop E (term # terms) images =
     (case serper_post E (term @ '' financial chart'') of
        Inl e \<Rightarrow> Inl e
      | Inr data \<Rightarrow>
          (case py_get data ''images'' (PList []) of
             Inl e \<Rightarrow> Inl e
           | Inr hits \<Rightarrow>
               (case py_slice_to 1 hits of
                  Inl e \<Rightarrow> Inl e
                | Inr sliced \<Rightarrow>
                    (case py_iter sliced of
                       Inl e \<Rightarrow> Inl e
                     | Inr items \<Rightarrow>
                         (case serper_harvest E term items images of
                            Inl e \<Rightarrow> Inl e
                          | Inr images' \<Rightarrow> serper_loop E terms images')))))"

text \<open>\<open>FormattingAgent._search_images_serper\<close>: any exception gives the empty list.\<close>

definition search_images_serper :: "env \<Rightarrow> string list \<Rightarrow> pyval list" where
  "search_images_serper E search_terms =
     (case serper_loop E (take 2 search_terms) [] of Inl e \<Rightarrow> [] | Inr images \<Rightarrow> images)"

text \<open>The inner loop of \<open>_search_images_tavily\<close> over \<open>data.get('results', [])[:1]\<close>.\<close>

fun tavily_harvest :: "env \<Rightarrow> string \<Rightarrow> pyval list \<Rightarrow> pyval list \<Rightarrow> exn + pyval list" where
  "tavily_harvest E term [] images = Inr images"
| "tavily_harvest E term (result # rest) images =
     (case py_get result ''images'' (PList []) of
        Inl e \<Rightarrow> Inl e
      | Inr images_list \<Rightarrow>
          if truthy images_list
          then (case py_first images_list of
                  Inl e \<Rightarrow> Inl e
                | Inr img_url \<Rightarrow>
                    if is_valid_image_url E img_url
                    then tavily_harvest E term rest
                           (images @ [PDict [(''url'', img_url),
                                             (''title'', PStr (''Financial Chart - '' @ term)),
                                             (''source'', PStr ''Tavily''),
                                             (''search_term'', PStr term)]])
                    else tavily_harvest E term rest images)
          else tavily_harvest E term rest images)"

fun tavily_loop :: "env \<Rightarrow> string list \<Rightarrow> pyval list \<Rightarrow> exn + pyval list" where
  "tavily_loop E [] images = Inr images"
| "tavily_loop E (term # terms) images =
     (case tavily_post E (term @ '' financial chart graph'') of
        Inl e \<Rightarrow> Inl e
      | Inr data \<Rightarrow>
          (case py_get data ''results'' (PList []) of
             Inl e \<Rightarrow> Inl e
           | Inr results \<Rightarrow>
               (case py_slice_to 1 results of
                  Inl e \<Rightarrow> Inl e
                | Inr sliced \<Rightarrow>
                    (case py_iter sliced of
                       Inl e \<Rightarrow> Inl e
                     | Inr items \<Rightarrow>
                         (case tavily_harvest E term items images of
                            Inl e \<Rightarrow> Inl e
                          | Inr images' \<Rightarrow> tavily_loop E terms images')))))"

text \<open>\<open>FormattingAgent._search_images_tavily\<close>.\<close>

definition search_images_tavily :: "env \<Rightarrow> string list \<Rightarrow> pyval list" where
  "search_images_tavily E search_terms =
     (case tavily_loop E (take 2 search_terms) [] of Inl e \<Rightarrow> [] | Inr images \<Rightarrow> images)"

text \<open>
  \<open>FormattingAgent._find_financial_images\<close>. Only the term extraction can raise inside
  the \<open>try\<close>; the handler returns the first two fallback descriptors.
\<close>

definition find_financial_images :: "env \<Rightarrow> pyval \<Rightarrow> pyval list" where
  "find_financial_images E summary_text =
     (case extract_search_terms summary_text of
        Inl e \<Rightarrow> take 2 get_fallback_images
      | Inr search_terms \<Rightarrow>
          (let images = [];
               images = (if configured (serper_api_key E)
                         then images @ search_images_serper E search_terms else images);
               images = (if configured (tavily_api_key E) \<and> length images < 2
                         then images @ search_images_tavily E search_terms else images);
               images = (if length images < 2 then images @ get_fallback_images else images)
           in take 2 images))"

text \<open>
  The images harvested from the providers before the top-up in
  \<open>_find_financial_images\<close>: Serper's when its key is configured, then Tavily's when
  its key is configured and fewer than two were collected; none when the term
  extraction raised.
\<close>

definition harvested_images :: "env \<Rightarrow> pyval \<Rightarrow> pyval list" where
  "harvested_images E summary_text =
     (case extract_search_terms summary_text of
        Inl e \<Rightarrow> []
      | Inr search_terms \<Rightarrow>
          (let images = (if configured (serper_api_key E)
                         then search_images_serper E search_terms else [])
           in if configured (tavily_api_key E) \<and> length images < 2
              then images @ search_images_tavily E search_terms else images))"

text \<open>The f-string \<open>"\n\n[Chart: {image['title']}]\n{image['url']}\n"\<close>.\<close>

definition chart_marker :: "env \<Rightarrow> pyval \<Rightarrow> exn + string" where
  "chart_marker E img =
     (case subscript_key img ''title'' of
        Inl e \<Rightarrow> Inl e
      | Inr title \<Rightarrow>
          (case subscript_key img ''url'' of
             Inl e \<Rightarrow> Inl e
           | Inr url \<Rightarrow>
               Inr (''\<newline>\<newline>[Chart: '' @ py_str E title @ '']\<newline>'' @ py_str E url @ ''\<newline>'')))"

text \<open>\<open>xs.insert(i, x)\<close> for \<open>i \<ge> 0\<close>: past the end it appends.\<close>

definition py_insert :: "nat \<Rightarrow> 'a \<Rightarrow> 'a list \<Rightarrow> 'a list" where
  "py_insert i x xs = take i xs @ [x] @ drop i xs"

text \<open>
  \<open>FormattingAgent._insert_images_in_summary\<close>. With no image the text is returned as it
  came, whatever its type; otherwise \<open>.split\<close> needs a string.
\<close>

definition insert_images_in_summary :: "env \<Rightarrow> pyval \<Rightarrow> pyval list \<Rightarrow> exn + pyval" where
  "insert_images_in_summary E summary_text images =
     (if images = [] then Inr summary_text
      else case summary_text of
        PStr s \<Rightarrow>
          (let paragraphs = py_split ''\<newline>\<newline>'' s in
           case (if length paragraphs \<ge> 1 \<and> length images \<ge> 1
                 then (case chart_marker E (images ! 0) of
                         Inl e \<Rightarrow> Inl e
                       | Inr image_text \<Rightarrow> Inr (py_insert 1 image_text paragraphs))
                 else Inr paragraphs) of
             Inl e \<Rightarrow> Inl e
           | Inr paragraphs \<Rightarrow>
               (case (if length paragraphs \<ge> 3 \<and> length images \<ge> 2
                      then (case chart_marker E (images ! 1) of
                              Inl e \<Rightarrow> Inl e
                            | Inr image_text \<Rightarrow>
                                Inr (py_insert (length paragraphs div 2) image_text paragraphs))
                      else Inr paragraphs) of
                  Inl e \<Rightarrow> Inl e
                | Inr paragraphs \<Rightarrow> Inr (PStr (py_join ''\<newline>\<newline>'' paragraphs))))
      | _ \<Rightarrow> Inl AttributeError)"





section \<open>Summary agent\<close>

text \<open>One entry of \<open>content_parts\<close> in \<open>_prepare_news_content\<close>.\<close>

definition news_part :: "env \<Rightarrow> nat \<Rightarrow> pyval \<Rightarrow> exn + string" where
  "news_part E i item =
     (case py_get item ''title'' (PStr ''No title'') of
        Inl e \<Rightarrow> Inl e
      | Inr title \<Rightarrow>
          (case py_get item ''content'' (PStr ''No content'') of
             Inl e \<Rightarrow> Inl e
           | Inr content \<Rightarrow>
               (case py_get item ''source'' (PStr ''Unknown'') of
                  Inl e \<Rightarrow> Inl e
                | Inr source \<Rightarrow>
                    Inr (py_str_nat i @ ''. '' @ py_str E title @ ''\<newline>   Source: ''
                         @ py_str E source @ ''\<newline>   Summary: '' @ py_str E content
                         @ ''\<newline>''))))"

fun news_parts :: "env \<Rightarrow> nat \<Rightarrow> pyval list \<Rightarrow> exn + string list" where
  "news_parts E i [] = Inr []"
| "news_parts E i (item # items) =
     (case news_part E i item of
        Inl e \<Rightarrow> Inl e
      | Inr part \<Rightarrow>
          (case news_parts E (Suc i) items of
             Inl e \<Rightarrow> Inl e
           | Inr parts \<Rightarrow> Inr (part # parts)))"

text \<open>\<open>SummaryAgent._prepare_news_content\<close>.\<close>

definition prepare_news_content :: "env \<Rightarrow> pydict \<Rightarrow> exn + string" where
  "prepare_news_content E search_data =
     (let news_items = dict_get search_data ''news_data'' (PList []) in
      if \<not> truthy news_items then Inr ''No recent financial news available.''
      else case py_slice_to 10 news_items of
        Inl e \<Rightarrow> Inl e
      | Inr sliced \<Rightarrow>
          (case py_iter sliced of
             Inl e \<Rightarrow> Inl e
           | Inr items \<Rightarrow>
               (case news_parts E 1 items of
                  Inl e \<Rightarrow> Inl e
                | Inr content_parts \<Rightarrow> Inr (py_join ''\<newline>'' content_parts))))"

text \<open>The bullet literal of \<open>_create_manual_summary\<close>, as the bytes of the source file.\<close>

definition bullet :: string where
  "bullet = [CHR 0xC3, CHR 0xA2, CHR 0xE2, CHR 0x82, CHR 0xAC, CHR 0xC2, CHR 0xA2]"

text \<open>\<open>SummaryAgent._create_manual_summary\<close>.\<close>

definition create_manual_summary :: "string \<Rightarrow> string" where
  "create_manual_summary news_content =
     (let lines = py_split ''\<newline>'' news_content;
          headlines = filter (\<lambda>line. py_strip line \<noteq> [] \<and> \<not> prefix ''   '' line) lines
      in ''Financial Market Summary:\<newline>\<newline>''
         @ ''Key developments in today's market:\<newline>''
         @ concat (map (\<lambda>headline. if py_strip headline \<noteq> []
                                  then bullet @ '' '' @ py_strip headline @ ''\<newline>''
                                  else [])
                       (take 5 headlines))
         @ ''\<newline>This summary was generated from available financial news sources.'')"

text \<open>
  \<open>SummaryAgent._generate_llm_summary\<close>. \<open>summary_completion\<close> stands for building the
  prompt around \<open>news_content\<close>, the call of the model and the read of
  \<open>response.choices[0].message.content\<close>; a content that is not a string makes
  \<open>.strip()\<close> raise. Every exception falls back to the manual summary.
\<close>

definition generate_llm_summary :: "env \<Rightarrow> string \<Rightarrow> string" where
  "generate_llm_summary E news_content =
     (case summary_completion E news_content of
        Inl e \<Rightarrow> create_manual_summary news_content
      | Inr content \<Rightarrow>
          (case content of
             PStr c \<Rightarrow>
               (let summary = py_strip c;
                    words = py_words summary
                in if length words > 500
                   then py_join '' '' (take 500 words) @ ''...''
                   else summary)
           | _ \<Rightarrow> create_manual_summary news_content))"

definition create_fallback_summary :: "env \<Rightarrow> pyval" where
  "create_fallback_summary E =
     PDict [(''summary'', PStr (''Unable to generate market summary due to lack of available financial news data. ''
                               @ ''Please check your news data sources and API connections.'')),
            (''timestamp'', PStr (now_iso E)),
            (''word_count'', PInt 0),
            (''source_count'', PInt 0),
            (''status'', PStr ''fallback'')]"

definition create_error_summary :: "env \<Rightarrow> string \<Rightarrow> pyval" where
  "create_error_summary E error_message =
     PDict [(''summary'', PStr (''Error generating financial market summary: '' @ error_message)),
            (''timestamp'', PStr (now_iso E)),
            (''word_count'', PInt 0),
            (''source_count'', PInt 0),
            (''status'', PStr ''error''),
            (''error'', PStr error_message)]"

text \<open>\<open>SummaryAgent.create_summary\<close>.\<close>

definition create_summary_body :: "env \<Rightarrow> pyval \<Rightarrow> exn + pyval" where
  "create_summary_body E context =
     (case extract_search_data context of
        None \<Rightarrow> Inr (create_fallback_summary E)
      | Some search_data \<Rightarrow>
          if search_data = [] then Inr (create_fallback_summary E)
          else
            (case prepare_news_content E search_data of
               Inl e \<Rightarrow> Inl e
             | Inr news_content \<Rightarrow>
                 (let summary = generate_llm_summary E news_content in
                  case py_len (dict_get search_data ''news_data'' (PList [])) of
                    Inl e \<Rightarrow> Inl e
                  | Inr n \<Rightarrow>
                      Inr (PDict [(''summary'', PStr summary),
                                  (''timestamp'', PStr (now_iso E)),
                                  (''word_count'', PInt (int (length (py_words summary)))),
                                  (''source_count'', PInt (int n))]))))"

definition create_summary :: "env \<Rightarrow> pyval \<Rightarrow> pyval" where
  "create_summary E context =
     (case create_summary_body E context of
        Inl e \<Rightarrow> create_error_summary E (exn_str E e)
      | Inr payload \<Rightarrow> payload)"

section \<open>Translating agent\<close>

text \<open>\<open>self.target_languages\<close>, in the order of the dict literal.\<close>

definition target_languages :: "(string \<times> string) list" where
  "target_languages =
     [(''hindi'', [CHR 0xE0, CHR 0xA4, CHR 0xB9, CHR 0xE0, CHR 0xA4, CHR 0xBF, CHR 0xE0,
      CHR 0xA4, CHR 0xA8, CHR 0xE0, CHR 0xA5, CHR 0x8D, CHR 0xE0, CHR 0xA4, CHR 0xA6, CHR 0xE0,
      CHR 0xA5, CHR 0x80]),
      (''arabic'', [CHR 0xD8, CHR 0xA7, CHR 0xD9, CHR 0x84, CHR 0xD8, CHR 0xB9, CHR 0xD8,
       CHR 0xB1, CHR 0xD8, CHR 0xA8, CHR 0xD9, CHR 0x8A, CHR 0xD8, CHR 0xA9]),
      (''hebrew'', [CHR 0xD7, CHR 0xA2, CHR 0xD7, CHR 0x91, CHR 0xD7, CHR 0xA8, CHR 0xD7,
       CHR 0x99, CHR 0xD7, CHR 0xAA])]"

definition fallback_messages :: "(string \<times> string) list" where
  "fallback_messages =
     [([CHR 0xE0, CHR 0xA4, CHR 0xB9, CHR 0xE0, CHR 0xA4, CHR 0xBF, CHR 0xE0, CHR 0xA4,
      CHR 0xA8, CHR 0xE0, CHR 0xA5, CHR 0x8D, CHR 0xE0, CHR 0xA4, CHR 0xA6, CHR 0xE0, CHR 0xA5,
      CHR 0x80],
       [CHR 0xE0, CHR 0xA4, CHR 0xB5, CHR 0xE0, CHR 0xA4, CHR 0xBF, CHR 0xE0, CHR 0xA4,
        CHR 0xA4, CHR 0xE0, CHR 0xA5, CHR 0x8D, CHR 0xE0, CHR 0xA4, CHR 0xA4, CHR 0xE0,
        CHR 0xA5, CHR 0x80, CHR 0xE0, CHR 0xA4, CHR 0xAF] @ '' '' @ [CHR 0xE0, CHR 0xA4,
        CHR 0xAC, CHR 0xE0, CHR 0xA4, CHR 0xBE, CHR 0xE0, CHR 0xA4, CHR 0x9C, CHR 0xE0,
        CHR 0xA4, CHR 0xBE, CHR 0xE0, CHR 0xA4, CHR 0xB0] @ '' '' @ [CHR 0xE0, CHR 0xA4,
        CHR 0xB8, CHR 0xE0, CHR 0xA4, CHR 0xBE, CHR 0xE0, CHR 0xA4, CHR 0xB0, CHR 0xE0,
        CHR 0xA4, CHR 0xBE, CHR 0xE0, CHR 0xA4, CHR 0x82, CHR 0xE0, CHR 0xA4,
        CHR 0xB6] @ '' - '' @ [CHR 0xE0, CHR 0xA4, CHR 0x85, CHR 0xE0, CHR 0xA4, CHR 0xA8,
        CHR 0xE0, CHR 0xA5, CHR 0x81, CHR 0xE0, CHR 0xA4, CHR 0xB5, CHR 0xE0, CHR 0xA4,
        CHR 0xBE, CHR 0xE0, CHR 0xA4, CHR 0xA6] @ '' '' @ [CHR 0xE0, CHR 0xA4, CHR 0xB8,
        CHR 0xE0, CHR 0xA5, CHR 0x87, CHR 0xE0, CHR 0xA4, CHR 0xB5, CHR 0xE0, CHR 0xA4,
        CHR 0xBE] @ '' '' @ [CHR 0xE0, CHR 0xA4, CHR 0x85, CHR 0xE0, CHR 0xA4, CHR 0xA8,
        CHR 0xE0, CHR 0xA5, CHR 0x81, CHR 0xE0, CHR 0xA4, CHR 0xAA, CHR 0xE0, CHR 0xA4,
        CHR 0xB2, CHR 0xE0, CHR 0xA4, CHR 0xAC, CHR 0xE0, CHR 0xA5, CHR 0x8D, CHR 0xE0,
        CHR 0xA4, CHR 0xA7]),
      ([CHR 0xD8, CHR 0xA7, CHR 0xD9, CHR 0x84, CHR 0xD8, CHR 0xB9, CHR 0xD8, CHR 0xB1,
       CHR 0xD8, CHR 0xA8, CHR 0xD9, CHR 0x8A, CHR 0xD8, CHR 0xA9],
       [CHR 0xD9, CHR 0x85, CHR 0xD9, CHR 0x84, CHR 0xD8, CHR 0xAE, CHR 0xD8,
        CHR 0xB5] @ '' '' @ [CHR 0xD8, CHR 0xA7, CHR 0xD9, CHR 0x84, CHR 0xD8, CHR 0xB3,
        CHR 0xD9, CHR 0x88, CHR 0xD9, CHR 0x82] @ '' '' @ [CHR 0xD8, CHR 0xA7, CHR 0xD9,
        CHR 0x84, CHR 0xD9, CHR 0x85, CHR 0xD8, CHR 0xA7, CHR 0xD9, CHR 0x84, CHR 0xD9,
        CHR 0x8A] @ '' - '' @ [CHR 0xD8, CHR 0xAE, CHR 0xD8, CHR 0xAF, CHR 0xD9, CHR 0x85,
        CHR 0xD8, CHR 0xA9] @ '' '' @ [CHR 0xD8, CHR 0xA7, CHR 0xD9, CHR 0x84, CHR 0xD8,
        CHR 0xAA, CHR 0xD8, CHR 0xB1, CHR 0xD8, CHR 0xAC, CHR 0xD9, CHR 0x85, CHR 0xD8,
        CHR 0xA9] @ '' '' @ [CHR 0xD8, CHR 0xBA, CHR 0xD9, CHR 0x8A, CHR 0xD8,
        CHR 0xB1] @ '' '' @ [CHR 0xD9, CHR 0x85, CHR 0xD8, CHR 0xAA, CHR 0xD8, CHR 0xA7,
        CHR 0xD8, CHR 0xAD, CHR 0xD8, CHR 0xA9]),
      ([CHR 0xD7, CHR 0xA2, CHR 0xD7, CHR 0x91, CHR 0xD7, CHR 0xA8, CHR 0xD7, CHR 0x99,
       CHR 0xD7, CHR 0xAA],
       [CHR 0xD7, CHR 0xA1, CHR 0xD7, CHR 0x99, CHR 0xD7, CHR 0x9B, CHR 0xD7, CHR 0x95,
        CHR 0xD7, CHR 0x9D] @ '' '' @ [CHR 0xD7, CHR 0xA9, CHR 0xD7, CHR 0x95, CHR 0xD7,
        CHR 0xA7] @ '' '' @ [CHR 0xD7, CHR 0xA4, CHR 0xD7, CHR 0x99, CHR 0xD7, CHR 0xA0,
        CHR 0xD7, CHR 0xA0, CHR 0xD7, CHR 0xA1, CHR 0xD7, CHR 0x99] @ '' - '' @ [CHR 0xD7,
        CHR 0xA9, CHR 0xD7, CHR 0x99, CHR 0xD7, CHR 0xA8, CHR 0xD7, CHR 0x95, CHR 0xD7,
        CHR 0xAA] @ '' '' @ [CHR 0xD7, CHR 0xAA, CHR 0xD7, CHR 0xA8, CHR 0xD7, CHR 0x92,
        CHR 0xD7, CHR 0x95, CHR 0xD7, CHR 0x9D] @ '' '' @ [CHR 0xD7, CHR 0x9C, CHR 0xD7,
        CHR 0x90] @ '' '' @ [CHR 0xD7, CHR 0x96, CHR 0xD7, CHR 0x9E, CHR 0xD7, CHR 0x99,
        CHR 0xD7, CHR 0x9F])]"

text \<open>\<open>TranslatingAgent._create_fallback_translation\<close>.\<close>

definition create_fallback_translation :: "env \<Rightarrow> pyval \<Rightarrow> string \<Rightarrow> string" where
  "create_fallback_translation E original_content lang_name =
     (let fallback_message =
            (case map_of fallback_messages lang_name of
               None \<Rightarrow> ''Financial Market Summary - Translation service unavailable''
             | Some m \<Rightarrow> m)
      in fallback_message @ ''\<newline>\<newline>[Original Content]\<newline>'' @ py_str E original_content)"

text \<open>
  \<open>TranslatingAgent._translate_to_language\<close>. \<open>translate_completion\<close> stands for the
  prompt built from the content and the language, the call and the read of the
  response. The function catches every exception itself.
\<close>

definition translate_to_language :: "env \<Rightarrow> pyval \<Rightarrow> string \<Rightarrow> string \<Rightarrow> exn + string" where
  "translate_to_language E content lang_code lang_name =
     (case translate_completion E (py_str E content) lang_code lang_name of
        Inl e \<Rightarrow> Inr (create_fallback_translation E content lang_name)
      | Inr answer \<Rightarrow>
          (case answer of
             PStr t \<Rightarrow> Inr (py_strip t)
           | _ \<Rightarrow> Inr (create_fallback_translation E content lang_name)))"

text \<open>One pass of the loop over the target languages in \<open>translate_content\<close>.\<close>

definition translate_entry :: "env \<Rightarrow> pyval \<Rightarrow> pyval \<Rightarrow> string \<times> string \<Rightarrow> string \<times> pyval" where
  "translate_entry E formatted_summary images lang =
     (case translate_to_language E formatted_summary (fst lang) (snd lang) of
        Inr translation \<Rightarrow>
          (fst lang, PDict [(''language'', PStr (snd lang)),
                            (''content'', PStr translation),
                            (''images'', images)])
      | Inl e \<Rightarrow>
          (fst lang, PDict [(''language'', PStr (snd lang)),
                            (''content'', PStr (''Translation failed: '' @ exn_str E e)),
                            (''images'', images),
                            (''error'', PStr (exn_str E e))]))"

text \<open>\<open>_create_fallback_translations\<close> and \<open>_create_error_translations\<close>.\<close>

definition create_fallback_translations :: "env \<Rightarrow> pyval" where
  "create_fallback_translations E =
     PDict [(''original_content'', PStr []),
            (''translations'',
               PDict (map (\<lambda>lang. (fst lang,
                                     PDict [(''language'', PStr (snd lang)),
                                            (''content'', PStr ''No content available for translation.''),
                                            (''images'', PList []),
                                            (''status'', PStr ''fallback'')]))
                          target_languages)),
            (''timestamp'', PStr (now_iso E)),
            (''images'', PList []),
            (''status'', PStr ''fallback'')]"

definition create_error_translations :: "env \<Rightarrow> string \<Rightarrow> pyval" where
  "create_error_translations E error_message =
     PDict [(''original_content'', PStr []),
            (''translations'',
               PDict (map (\<lambda>lang. (fst lang,
                                     PDict [(''language'', PStr (snd lang)),
                                            (''content'', PStr (''Translation error: '' @ error_message)),
                                            (''images'', PList []),
                                            (''status'', PStr ''error''),
                                            (''error'', PStr error_message)]))
                          target_languages)),
            (''timestamp'', PStr (now_iso E)),
            (''images'', PList []),
            (''status'', PStr ''error''),
            (''error'', PStr error_message)]"

text \<open>\<open>TranslatingAgent.translate_content\<close>.\<close>

definition translate_content_body :: "env \<Rightarrow> pyval \<Rightarrow> exn + pyval" where
  "translate_content_body E context =
     (case extract_formatted_data context of
        None \<Rightarrow> Inr (create_fallback_translations E)
      | Some formatted_data \<Rightarrow>
          if formatted_data = [] then Inr (create_fallback_translations E)
          else
            (let formatted_summary = dict_get formatted_data ''formatted_summary'' (PStr []);
                 images = dict_get formatted_data ''images'' (PList []);
                 translations = map (translate_entry E formatted_summary images) target_languages
             in Inr (PDict [(''original_content'', formatted_summary),
                            (''translations'', PDict translations),
                            (''timestamp'', PStr (now_iso E)),
                            (''images'', images)])))"

definition translate_content :: "env \<Rightarrow> pyval \<Rightarrow> pyval" where
  "translate_content E context =
     (case translate_content_body E context of
        Inl e \<Rightarrow> create_error_translations E (exn_str E e)
      | Inr payload \<Rightarrow> payload)"

section \<open>PDF generator\<close>

text \<open>
  The pattern \<open>(\[Chart:.*?\])\<close> at the start of a string: after the literal
  \<open>[Chart:\<close> the lazy \<open>.*?\<close> runs to the first \<open>]\<close> and cannot cross a newline.
  \<open>scan_to_bracket\<close> returns the matched characters up to and including the bracket,
  and the rest.
\<close>

fun scan_to_bracket :: "string \<Rightarrow> (string \<times> string) option" where
  "scan_to_bracket [] = None"
| "scan_to_bracket (c # cs) =
     (if c = CHR '']'' then Some ([c], cs)
      else if c = CHR 0x0A then None
      else (case scan_to_bracket cs of
              None \<Rightarrow> None
            | Some (m, rest) \<Rightarrow> Some (c # m, rest)))"

definition match_marker :: "string \<Rightarrow> (string \<times> string) option" where
  "match_marker s =
     (if prefix ''[Chart:'' s
      then (case scan_to_bracket (drop 7 s) of
              None \<Rightarrow> None
            | Some (m, rest) \<Rightarrow> Some (''[Chart:'' @ m, rest))
      else None)"

lemma scan_to_bracket_length:
  "scan_to_bracket s = Some (m, rest) \<Longrightarrow> length rest < length s"
  by (induction s arbitrary: m) (auto split: if_splits option.splits)

lemma match_marker_length:
  "match_marker s = Some (m, rest) \<Longrightarrow> length rest < length s"
  by (auto simp: match_marker_def split: if_splits option.splits
           dest!: scan_to_bracket_length)

text \<open>
  \<open>re.split(r'(\[Chart:.*?\])', content)\<close>: the leftmost matches, not overlapping; with
  the capturing group the result alternates prose and marker, prose first and last.
\<close>

function re_split_chart :: "string \<Rightarrow> string list" where
  "re_split_chart [] = [[]]"
| "re_split_chart (c # cs) =
     (case match_marker (c # cs) of
        Some (m, rest) \<Rightarrow> [] # m # re_split_chart rest
      | None \<Rightarrow> (case re_split_chart cs of p # ps \<Rightarrow> (c # p) # ps | [] \<Rightarrow> [[c]]))"
  by pat_completeness auto
termination
  by (relation "measure length") (auto dest: match_marker_length)

text \<open>\<open>PDFGenerator._split_content_by_images\<close>.\<close>

definition split_content_by_images :: "string \<Rightarrow> string list" where
  "split_content_by_images content = filter (\<lambda>part. py_strip part \<noteq> []) (re_split_chart content)"

text \<open>\<open>PDFGenerator._add_image_placeholder\<close>: what it appends.\<close>

definition add_image_placeholder :: "string \<Rightarrow> flowable list" where
  "add_image_placeholder placeholder_text =
     [Paragraph (''<i>'' @ placeholder_text @ ''</i>'') ItalicStyle, Spacer 1 8]"

text \<open>The text branch of the loop in \<open>_add_formatted_content\<close>: what one part appends.\<close>

definition add_text_part :: "string \<Rightarrow> flowable list" where
  "add_text_part part =
     (if py_strip part \<noteq> []
      then concat (map (\<lambda>para. if py_strip para \<noteq> []
                               then [Paragraph (py_strip para) NormalStyle, Spacer 1 12]
                               else [])
                       (py_split ''\<newline>\<newline>'' part))
      else [])"

definition add_content_part :: "string \<Rightarrow> flowable list" where
  "add_content_part part =
     (if prefix ''[Chart:'' part then add_image_placeholder part else add_text_part part)"

text \<open>The icons of the headings and captions, as the bytes of the source file.\<close>

definition icon_summary :: string where
  "icon_summary = [CHR 0xC3, CHR 0xB0, CHR 0xC5, CHR 0xB8, CHR 0xE2, CHR 0x80, CHR 0x9C,
   CHR 0xCB, CHR 0x86]"

definition icon_chart :: string where
  "icon_chart = [CHR 0xC3, CHR 0xB0, CHR 0xC5, CHR 0xB8, CHR 0xE2, CHR 0x80, CHR 0x9C,
   CHR 0xC5, CHR 0xA0]"

text \<open>
  \<open>PDFGenerator._add_image_to_story\<close>: what it appends. \<open>fetch_image\<close> stands for the
  download, the decoding, the resize to the 400 by 300 box and the re-encoding, and
  gives the final size. An \<open>image_data\<close> that is not a dict raises in the \<open>try\<close>
  and again in the handler, whose log line calls \<open>image_data.get\<close>.
\<close>

definition add_image_to_story :: "env \<Rightarrow> pyval \<Rightarrow> exn + flowable list" where
  "add_image_to_story E image_data =
     (case image_data of
        PDict d \<Rightarrow>
          (let url = dict_get d ''url'' (PStr []);
               title = dict_get d ''title'' (PStr ''Chart'');
               not_loaded = [Paragraph (icon_chart @ '' '' @ py_str E title
                                        @ '' (Image could not be loaded)'') ItalicStyle,
                             Spacer 1 15];
               not_available = [Paragraph (icon_chart @ '' '' @ py_str E title
                                           @ '' (Chart not available)'') ItalicStyle,
                                Spacer 1 15]
           in if \<not> truthy url then Inr not_available
              else case url of
                PStr u \<Rightarrow>
                  if py_contains ''placeholder'' (py_lower u) then Inr not_available
                  else (case fetch_image E u of
                          Inl e \<Rightarrow> Inr not_loaded
                        | Inr (w, h) \<Rightarrow>
                            Inr [Paragraph (icon_chart @ '' '' @ py_str E title) ItalicStyle,
                                 Spacer 1 8, Image w h, Spacer 1 20])
              | _ \<Rightarrow> Inr not_loaded)
      | _ \<Rightarrow> Inl AttributeError)"

fun add_images :: "env \<Rightarrow> pyval list \<Rightarrow> exn + flowable list" where
  "add_images E [] = Inr []"
| "add_images E (img # imgs) =
     (case add_image_to_story E img of
        Inl e \<Rightarrow> Inl e
      | Inr fs \<Rightarrow> (case add_images E imgs of Inl e \<Rightarrow> Inl e | Inr gs \<Rightarrow> Inr (fs @ gs)))"

text \<open>
  \<open>PDFGenerator._add_formatted_content\<close>: the flowables it appends to the story.
  \<open>re.split\<close> raises on a summary that is not a string.
\<close>

definition add_formatted_content :: "env \<Rightarrow> pydict \<Rightarrow> exn + flowable list" where
  "add_formatted_content E pdf_data =
     (let header = [Paragraph (icon_summary @ '' Financial Market Summary'') HeadingStyle,
                    Spacer 1 20];
          formatted_summary = dict_get pdf_data ''formatted_summary'' (PStr [])
      in case (if truthy formatted_summary
               then (case formatted_summary of
                       PStr s \<Rightarrow> Inr (concat (map add_content_part (split_content_by_images s)))
                     | _ \<Rightarrow> Inl TypeError)
               else Inr []) of
           Inl e \<Rightarrow> Inl e
         | Inr body \<Rightarrow>
             (let images = dict_get pdf_data ''images'' (PList []) in
              if truthy images
              then (case py_iter images of
                      Inl e \<Rightarrow> Inl e
                    | Inr imgs \<Rightarrow>
                        (case add_images E imgs of
                           Inl e \<Rightarrow> Inl e
                         | Inr charts \<Rightarrow>
                             Inr (header @ body
                                  @ [Spacer 1 20,
                                     Paragraph (icon_chart @ '' Related Charts and Graphs'') HeadingStyle,
                                     Spacer 1 15]
                                  @ charts)))
              else Inr (header @ body)))"


section \<open>Send agent\<close>











section \<open>A sample environment\<close>

text \<open>
  A concrete environment for the closed instances below: no search provider is
  configured, the language model answers the summary request with a short text and is
  unreachable for translations, Telegram accepts the text message and refuses photos,
  and the PDF cannot be written. \<open>demo_urlparse\<close> splits a plain
  \<open>scheme://netloc/path\<close> URL.
\<close>

definition demo_urlparse :: "string \<Rightarrow> exn + (string \<times> string)" where
  "demo_urlparse u =
     (let scheme = takeWhile (\<lambda>c. c \<noteq> CHR '':'') u;
          rest = drop (Suc (length scheme)) u
      in if scheme = [] \<or> length u \<le> length scheme then Inr ([], [])
         else if prefix ''//'' rest
              then Inr (py_lower scheme, takeWhile (\<lambda>c. c \<notin> set ''/?#'') (drop 2 rest))
              else Inr (py_lower scheme, []))"

definition demo_exn_str :: "exn \<Rightarrow> string" where
  "demo_exn_str e =
     (case e of
        AttributeError \<Rightarrow> ''AttributeError''
      | TypeError \<Rightarrow> ''TypeError''
      | KeyError \<Rightarrow> ''KeyError''
      | IndexError \<Rightarrow> ''IndexError''
      | ValueError \<Rightarrow> ''ValueError''
      | ExternalError m \<Rightarrow> m)"

definition demo_env :: env where
  "demo_env =
     \<lparr> serper_api_key = None,
       tavily_api_key = None,
       telegram_token = Some ''token'',
       telegram_chat_id = Some ''42'',
       now_iso = ''2025-01-01T17:00:00'',
       now_stamp = ''20250101_170000'',
       now_date = ''January 01, 2025'',
       now_long = ''January 01, 2025 at 05:00 PM'',
       serper_post = (\<lambda>q. Inl (ExternalError ''offline'')),
       tavily_post = (\<lambda>q. Inl (ExternalError ''offline'')),
       summary_completion = (\<lambda>news. Inr (PStr ''Markets were mixed...'')),
       translate_completion = (\<lambda>content code name. Inl (ExternalError ''offline'')),
       telegram_send_message =
         (\<lambda>text. Inr (PDict [(''ok'', PBool True),
                               (''result'', PDict [(''message_id'', PInt 7)])])),
       telegram_send_photo = (\<lambda>photo caption. Inl (ExternalError ''photo refused'')),
       urlparse = demo_urlparse,
       fetch_image = (\<lambda>u. Inl (ExternalError ''offline'')),
       doc_build = (\<lambda>path story. Some (ExternalError ''disk full'')),
       str_of = (\<lambda>v. ''<value>''),
       exn_str = demo_exn_str \<rparr>"


text \<open>A field of a payload.\<close>

definition payload_field :: "pyval \<Rightarrow> string \<Rightarrow> pyval option" where
  "payload_field p k = (case p of PDict d \<Rightarrow> map_of d k | _ \<Rightarrow> None)"

text \<open>A word as \<open>str.split()\<close> returns it: not empty and free of whitespace.\<close>

definition is_word :: "string \<Rightarrow> bool" where
  "is_word w = (w \<noteq> [] \<and> (\<forall>c \<in> set w. \<not> py_isspace c))"

text \<open>The scenario text of the spec, and what the assembler makes of it.\<close>

definition scenario_summary :: string where
  "scenario_summary = ''S&P 500 fell 2% today.\<newline>\<newline>[Chart: S&P 500 Daily]\<newline>http://x/img.png\<newline>\<newline>Markets closed early.''"

text \<open>The texts of the body paragraphs (normal style) in a story.\<close>

definition body_paragraphs :: "flowable list \<Rightarrow> string list" where
  "body_paragraphs fs =
     concat (map (\<lambda>f. case f of Paragraph t st \<Rightarrow> (if st = NormalStyle then [t] else []) | _ \<Rightarrow> []) fs)"

definition scenario_body :: "flowable list" where
  "scenario_body =
     [Paragraph ''S&P 500 fell 2% today.'' NormalStyle, Spacer 1 12,
      Paragraph ''<i>[Chart: S&P 500 Daily]</i>'' ItalicStyle, Spacer 1 8,
      Paragraph ''http://x/img.png'' NormalStyle, Spacer 1 12,
      Paragraph ''Markets closed early.'' NormalStyle, Spacer 1 12]"




text \<open>
  An absent upstream for a required key, in the claim's words: None, an empty record, or a
  list containing no record with the key.
\<close>

definition absent_context :: "string \<Rightarrow> pyval \<Rightarrow> bool" where
  "absent_context k ctx =
     (case ctx of
        PNone \<Rightarrow> True
      | PDict d \<Rightarrow> d = []
      | PList xs \<Rightarrow> find (is_record_with k) xs = None
      | _ \<Rightarrow> False)"

text \<open>
  Reading a translation bundle: the entry of a language code, its content, and the
  entry that the spec expects for a missing upstream.
\<close>

definition translation_of :: "pyval \<Rightarrow> string \<Rightarrow> pyval option" where
  "translation_of payload code =
     (case payload_field payload ''translations'' of
        Some (PDict t) \<Rightarrow> map_of t code
      | _ \<Rightarrow> None)"

definition translation_content :: "pyval \<Rightarrow> string \<Rightarrow> pyval option" where
  "translation_content payload code =
     (case translation_of payload code of
        Some entry \<Rightarrow> payload_field entry ''content''
      | None \<Rightarrow> None)"

definition no_content_entry :: "string \<Rightarrow> pyval" where
  "no_content_entry lang_name =
     PDict [(''language'', PStr lang_name),
            (''content'', PStr ''No content available for translation.''),
            (''images'', PList []),
            (''status'', PStr ''fallback'')]"






section \<open>Theorems\<close>

subsection \<open>Stage Context Protocol\<close>

lemma first_dict_with_find:
  "map_option PDict (first_dict_with k xs) = find (is_record_with k) xs"
  by (induction k xs rule: first_dict_with.induct) (simp_all add: is_record_with_def)

lemma extract_summary_list:
  "map_option PDict (extract_summary_data (PList xs)) = find (is_record_with ''summary'') xs"
  by (cases xs) (simp_all add: extract_summary_data_def first_dict_with_find)

lemma extract_formatted_list:
  "map_option PDict (extract_formatted_data (PList xs)) = find (is_record_with ''formatted_summary'') xs"
  by (cases xs) (simp_all add: extract_formatted_data_def first_dict_with_find)

text \<open>
  C5, as the code has it. A single record is returned whenever it is not empty, whether
  or not it holds the required key (an empty record gives None). For a sequence, the
  formatting, translating and send agents return the first element that is a record
  containing the required key, and None when there is none.
\<close>

theorem extraction_protocol:
  "extract_summary_data (PDict d) = (if d = [] then None else Some d)
   \<and> extract_formatted_data (PDict d) = (if d = [] then None else Some d)
   \<and> extract_search_data (PDict d) = (if d = [] then None else Some d)
   \<and> map_option PDict (extract_summary_data (PList xs)) = spec_first_record ''summary'' xs
   \<and> map_option PDict (extract_formatted_data (PList xs)) = spec_first_record ''formatted_summary'' xs"
  by (simp add: extract_summary_list extract_formatted_list spec_first_record_def)
     (simp add: extract_summary_data_def extract_formatted_data_def extract_search_data_def)

text \<open>
  C5 as stated fails: the formatting agent returns a record that has no \<open>summary\<close> key.
\<close>

theorem extraction_returns_record_without_key:
  "extract_summary_data (PDict [(''news_data'', PList [])]) = Some [(''news_data'', PList [])]
   \<and> \<not> has_key ''summary'' [(''news_data'', PList [])]"
  by (simp add: extract_summary_data_def has_key_def)

subsection \<open>Image Resolver\<close>

text \<open>
  C2: the Image Resolver returns exactly two descriptors, for every input value and
  every behaviour of the providers. The result is the first two of the harvested
  images followed by the two static fallback descriptors: fewer than two harvested
  images are topped up from the fallback set, more than two are cut to the first two.
\<close>

theorem find_financial_images_two:
  "length (find_financial_images E summary_text) = 2
   \<and> length get_fallback_images = 2
   \<and> find_financial_images E summary_text
       = take 2 (harvested_images E summary_text @ get_fallback_images)"
proof -
  have top_up: "take 2 (if length xs < 2 then xs @ get_fallback_images else xs)
                  = take 2 (xs @ get_fallback_images)" for xs :: "pyval list"
    by simp
  have eq: "find_financial_images E summary_text
              = take 2 (harvested_images E summary_text @ get_fallback_images)"
    by (cases "extract_search_terms summary_text")
       (simp_all add: find_financial_images_def harvested_images_def Let_def top_up)
  have two: "length get_fallback_images = 2"
    by (simp add: get_fallback_images_def)
  show ?thesis
    using two by (simp add: eq)
qed


























subsection \<open>Image insertion\<close>

lemma py_split_no_sep:
  "\<not> py_contains sep s \<Longrightarrow> py_split sep s = [s]"
  by (induction s) auto

text \<open>
  C10: on a summary with no blank-line separator, \<open>_insert_images_in_summary\<close> inserts
  the marker of the first image only (after the text), whatever the images list holds
  beyond it; a first image without \<open>title\<close> or \<open>url\<close> raises. With an empty images
  list the summary is returned unchanged.
\<close>

theorem insert_images_single_paragraph:
  assumes "\<not> py_contains ''\<newline>\<newline>'' s"
  shows "insert_images_in_summary E (PStr s) images =
     (case images of
        [] \<Rightarrow> Inr (PStr s)
      | img # _ \<Rightarrow> (case chart_marker E img of
                      Inl e \<Rightarrow> Inl e
                    | Inr m \<Rightarrow> Inr (PStr (s @ ''\<newline>\<newline>'' @ m))))
     \<and> insert_images_in_summary E summary_text [] = Inr summary_text"
  using assms
  by (cases images)
     (simp_all add: insert_images_in_summary_def py_split_no_sep py_insert_def split: sum.splits)

theorem insert_images_single_paragraph_witness:
  "\<not> py_contains ''\<newline>\<newline>'' ''Markets rose.''
   \<and> insert_images_in_summary demo_env (PStr ''Markets rose.'') get_fallback_images =
       Inr (PStr (''Markets rose.'' @ ''\<newline>\<newline>''
                  @ ''\<newline>\<newline>[Chart: Stock Market Performance Chart]\<newline>''
                  @ ''https://via.placeholder.com/600x400/0066cc/ffffff?text=Stock+Market+Chart\<newline>''))"
proof -
  have h: "\<not> py_contains ''\<newline>\<newline>'' ''Markets rose.''"
    by simp
  show ?thesis
    using h insert_images_single_paragraph [OF h, of demo_env get_fallback_images]
    by (simp add: get_fallback_images_def chart_marker_def subscript_key_def py_str_def)
qed

subsection \<open>Summary length cap\<close>

lemma py_words_Nil: "py_words [] = []"
  by (subst py_words.simps) simp

lemma py_words_space: "py_isspace c \<Longrightarrow> py_words (c # r) = py_words r"
  by (subst py_words.simps, subst (2) py_words.simps) simp

lemma py_words_word:
  assumes "is_word w" and "r = [] \<or> py_isspace (hd r)"
  shows "py_words (w @ r) = w # py_words r"
proof -
  from assms(1) obtain x xs where w: "w = x # xs" and x: "\<not> py_isspace x"
    and xs: "\<forall>c \<in> set xs. \<not> py_isspace c"
    by (cases w) (auto simp: is_word_def)
  have tw: "takeWhile (\<lambda>c. \<not> py_isspace c) (xs @ r) = xs"
    using xs assms(2) by (cases r) (auto simp: takeWhile_append)
  have dw: "dropWhile (\<lambda>c. \<not> py_isspace c) (xs @ r) = r"
    using xs assms(2) by (cases r) (auto simp: dropWhile_append)
  show ?thesis
    by (subst py_words.simps) (simp add: w x tw dw)
qed

lemma takeWhile_all: "\<forall>x \<in> set (takeWhile P xs). P x"
  by (induction xs) auto

lemma py_words_are_words: "\<forall>w \<in> set (py_words s). is_word w"
proof (induction s rule: py_words.induct)
  case (1 s)
  show ?case
  proof (cases "dropWhile py_isspace s")
    case Nil
    have "py_words s = []"
      by (subst py_words.simps, subst Nil, simp)
    then show ?thesis by simp
  next
    case (Cons c cs)
    have "\<not> py_isspace (hd (dropWhile py_isspace s))"
      by (rule hd_dropWhile) (simp add: Cons)
    then have c: "\<not> py_isspace c"
      by (simp add: Cons)
    have tw: "is_word (c # takeWhile (\<lambda>x. \<not> py_isspace x) cs)"
      unfolding is_word_def using c takeWhile_all [of "\<lambda>x. \<not> py_isspace x" cs] by simp
    have eq: "py_words s = (c # takeWhile (\<lambda>x. \<not> py_isspace x) cs)
                       # py_words (dropWhile (\<lambda>x. \<not> py_isspace x) cs)"
      by (subst py_words.simps, subst Cons) (simp add: c)
    have ih: "\<forall>w \<in> set (py_words (dropWhile (\<lambda>x. \<not> py_isspace x) cs)). is_word w"
      by (rule 1 [OF Cons])
    show ?thesis
      unfolding eq using tw ih by simp
  qed
qed

lemma py_words_join:
  "\<forall>w \<in> set ws. is_word w \<Longrightarrow> py_words (py_join '' '' ws) = ws"
proof (induction "'' ''" ws rule: py_join.induct)
  case 1
  show ?case by (simp add: py_words_Nil)
next
  case (2 x)
  then show ?case using py_words_word [of x "[]"] by (simp add: py_words_Nil)
next
  case (3 x y ys)
  have sp: "py_isspace CHR '' ''" by (simp add: py_isspace_def)
  have "py_words (x @ '' '' @ py_join '' '' (y # ys)) = x # py_words ('' '' @ py_join '' '' (y # ys))"
    using 3 sp by (intro py_words_word) auto
  also have "py_words ('' '' @ py_join '' '' (y # ys)) = py_words (py_join '' '' (y # ys))"
    using sp by (simp add: py_words_space)
  also have "\<dots> = y # ys" using 3 by simp
  finally show ?case by simp
qed

lemma py_join_snoc:
  "ws \<noteq> [] \<Longrightarrow> py_join sep ws @ t = py_join sep (butlast ws @ [last ws @ t])"
  by (induction sep ws rule: py_join.induct) auto

lemma is_word_ellipsis: "is_word w \<Longrightarrow> is_word (w @ ''...'')"
  by (auto simp: is_word_def py_isspace_def)

lemma py_words_truncated:
  assumes "\<forall>w \<in> set ws. is_word w" and "ws \<noteq> []"
  shows "py_words (py_join '' '' ws @ ''...'') = butlast ws @ [last ws @ ''...'']"
proof -
  have "\<forall>w \<in> set (butlast ws @ [last ws @ ''...'']). is_word w"
    using assms by (auto simp: is_word_ellipsis dest: in_set_butlastD)
  then show ?thesis
    by (simp add: py_join_snoc [OF assms(2)] py_words_join)
qed

lemma last_take_Suc: "n < length xs \<Longrightarrow> last (take (Suc n) xs) = xs ! n"
  by (simp add: take_Suc_conv_app_nth)

lemma butlast_take_Suc: "n < length xs \<Longrightarrow> butlast (take (Suc n) xs) = take n xs"
  by (simp add: take_Suc_conv_app_nth)

text \<open>
  Where the capped text ends up: on the normal path of \<open>create_summary\<close> the
  \<open>summary\<close> field is the result of \<open>_generate_llm_summary\<close> and \<open>word_count\<close>
  counts its words.
\<close>

lemma create_summary_fields:
  assumes "extract_search_data ctx = Some d" and "d \<noteq> []"
    and "prepare_news_content E d = Inr news_content"
    and "py_len (dict_get d ''news_data'' (PList [])) = Inr n"
  shows "payload_field (create_summary E ctx) ''summary''
           = Some (PStr (generate_llm_summary E news_content))"
    and "payload_field (create_summary E ctx) ''word_count''
           = Some (PInt (int (length (py_words (generate_llm_summary E news_content)))))"
  using assms
  by (simp_all add: create_summary_def create_summary_body_def Let_def payload_field_def)

text \<open>
  C4, as the code has it: when the language model answers with a text, the summary has at
  most 500 words; a stripped answer of more than 500 words is cut to its first 500
  words, joined by single spaces, with \<open>...\<close> appended to the last one; any other
  answer is returned stripped and unchanged, so it ends in \<open>...\<close> exactly when the
  model's text did.
\<close>

theorem summary_cap:
  assumes "summary_completion E news_content = Inr (PStr c)"
  shows "length (py_words (generate_llm_summary E news_content)) \<le> 500
    \<and> generate_llm_summary E news_content =
        (if 500 < length (py_words (py_strip c))
         then py_join '' '' (take 500 (py_words (py_strip c))) @ ''...''
         else py_strip c)
    \<and> (500 < length (py_words (py_strip c)) \<longrightarrow>
         py_words (generate_llm_summary E news_content) =
           take 499 (py_words (py_strip c)) @ [py_words (py_strip c) ! 499 @ ''...''])"
proof -
  let ?ws = "py_words (py_strip c)"
  have eq: "generate_llm_summary E news_content =
        (if 500 < length ?ws then py_join '' '' (take 500 ?ws) @ ''...'' else py_strip c)"
    using assms by (simp add: generate_llm_summary_def Let_def)
  have tr: "py_words (py_join '' '' (take 500 ?ws) @ ''...'') = take 499 ?ws @ [?ws ! 499 @ ''...'']"
    if long: "500 < length ?ws"
  proof -
    have ok: "\<forall>w \<in> set (take 500 ?ws). is_word w"
      using py_words_are_words [of "py_strip c"] by (auto dest: in_set_takeD)
    have ne: "take 500 ?ws \<noteq> []" using long by auto
    have s5: "(500::nat) = Suc 499" by simp
    have bl: "butlast (take 500 ?ws) = take 499 ?ws"
      using long unfolding s5 by (intro butlast_take_Suc) simp
    have la: "last (take 500 ?ws) = ?ws ! 499"
      using long unfolding s5 by (intro last_take_Suc) simp
    show ?thesis
      using py_words_truncated [OF ok ne] by (simp add: bl la)
  qed
  show ?thesis
  proof (cases "500 < length ?ws")
    case True
    then show ?thesis using eq tr by simp
  next
    case False
    then show ?thesis using eq by simp
  qed
qed


theorem summary_cap_witness:
  "summary_completion demo_env ''1. Fed holds rates'' = Inr (PStr ''Markets were mixed...'')
   \<and> length (py_words (generate_llm_summary demo_env ''1. Fed holds rates'')) \<le> 500"
proof -
  have h: "summary_completion demo_env ''1. Fed holds rates'' = Inr (PStr ''Markets were mixed...'')"
    by (simp add: demo_env_def)
  show ?thesis
    using h summary_cap [OF h] by blast
qed

lemma length_py_words: "length (py_words s) \<le> length s"
proof (induction s rule: py_words.induct)
  case (1 s)
  show ?case
  proof (cases "dropWhile py_isspace s")
    case Nil
    have "py_words s = []"
      by (subst py_words.simps, subst Nil, simp)
    then show ?thesis by simp
  next
    case (Cons c cs)
    have eq: "py_words s = takeWhile (\<lambda>x. \<not> py_isspace x) (c # cs)
                       # py_words (dropWhile (\<lambda>x. \<not> py_isspace x) cs)"
      by (subst py_words.simps, subst Cons) simp
    have "length (py_words (dropWhile (\<lambda>x. \<not> py_isspace x) cs))
            \<le> length (dropWhile (\<lambda>x. \<not> py_isspace x) cs)"
      by (rule 1 [OF Cons])
    also have "\<dots> \<le> length cs"
      by (rule length_dropWhile_le)
    finally have "length (py_words s) \<le> length (c # cs)"
      by (simp add: eq)
    also have "\<dots> \<le> length s"
      using length_dropWhile_le [of py_isspace s] by (simp add: Cons)
    finally show ?thesis .
  qed
qed

text \<open>
  C4 as stated fails: an answer of three words that ends in \<open>...\<close> is returned as it
  is, so the summary carries a trailing ellipsis although nothing was truncated.
\<close>

theorem ellipsis_without_truncation:
  "suffix ''...'' (generate_llm_summary demo_env ''1. Fed holds rates'')
   \<and> \<not> 500 < length (py_words (py_strip ''Markets were mixed...''))"
proof -
  have short: "\<not> 500 < length (py_words (py_strip ''Markets were mixed...''))"
    using length_py_words [of "py_strip ''Markets were mixed...''"]
    by (simp add: py_strip_def py_isspace_def)
  have "generate_llm_summary demo_env ''1. Fed holds rates'' = py_strip ''Markets were mixed...''"
    using short by (simp add: generate_llm_summary_def demo_env_def Let_def)
  then show ?thesis
    using short by (simp add: py_strip_def py_isspace_def suffix_def)
qed

subsection \<open>Document Assembler: splitting on chart markers\<close>







lemma scen_split: "re_split_chart scenario_summary =
   [''S&P 500 fell 2% today.\<newline>\<newline>'', ''[Chart: S&P 500 Daily]'',
    ''\<newline>http://x/img.png\<newline>\<newline>Markets closed early.'']"
  by (simp add: scenario_summary_def match_marker_def)




subsection \<open>Document Assembler: the scenario\<close>

lemma scenario_parts:
  "concat (map add_content_part (split_content_by_images scenario_summary)) = scenario_body"
  by (simp add: split_content_by_images_def scen_split add_content_part_def add_text_part_def
      add_image_placeholder_def py_strip_def py_isspace_def scenario_body_def)

text \<open>
  C7, as the code has it: the scenario text assembles into three body paragraphs and one
  placeholder line, in the order first paragraph, placeholder, URL line, last
  paragraph. The marker pattern ends at the closing bracket, so the URL line that
  follows the marker stays in the prose and becomes a paragraph.
\<close>

theorem scenario_document:
  "add_formatted_content E [(''formatted_summary'', PStr scenario_summary), (''images'', PList [])] =
     Inr ([Paragraph (icon_summary @ '' Financial Market Summary'') HeadingStyle, Spacer 1 20]
          @ scenario_body)
   \<and> body_paragraphs scenario_body =
       [''S&P 500 fell 2% today.'', ''http://x/img.png'', ''Markets closed early.'']"
proof -
  have ne: "scenario_summary \<noteq> []" by (simp add: scenario_summary_def)
  show ?thesis
    by (simp add: add_formatted_content_def dict_get_def Let_def ne scenario_parts)
       (simp add: body_paragraphs_def scenario_body_def)
qed

text \<open>C7 as stated fails: the body paragraphs are three, not two.\<close>

theorem scenario_has_three_paragraphs:
  "add_formatted_content demo_env [(''formatted_summary'', PStr scenario_summary), (''images'', PList [])] =
     Inr ([Paragraph (icon_summary @ '' Financial Market Summary'') HeadingStyle, Spacer 1 20]
          @ scenario_body)
   \<and> length (body_paragraphs scenario_body) \<noteq> 2"
proof -
  have ne: "scenario_summary \<noteq> []" by (simp add: scenario_summary_def)
  show ?thesis
    by (simp add: add_formatted_content_def dict_get_def Let_def ne scenario_parts)
       (simp add: body_paragraphs_def scenario_body_def)
qed


subsection \<open>Stage entry points\<close>

lemma first_dict_with_None:
  "first_dict_with k xs = None \<longleftrightarrow> find (is_record_with k) xs = None"
  by (induction k xs rule: first_dict_with.induct) (simp_all add: is_record_with_def)


lemma absent_formatted:
  "absent_context ''formatted_summary'' ctx \<Longrightarrow> extract_formatted_data ctx = None"
  by (cases ctx) (auto simp: absent_context_def extract_formatted_data_def first_dict_with_None)







lemma translate_content_fallback:
  "extract_formatted_data ctx = None \<Longrightarrow> translate_content E ctx = create_fallback_translations E"
  by (simp add: translate_content_def translate_content_body_def)









subsection \<open>Translation fallback\<close>

lemma fallback_translations_entries:
  "map fst target_languages = [''hindi'', ''arabic'', ''hebrew'']
   \<and> (\<forall>lang \<in> set target_languages.
         translation_of (create_fallback_translations E) (fst lang) = Some (no_content_entry (snd lang)))
   \<and> payload_field (create_fallback_translations E) ''images'' = Some (PList [])
   \<and> payload_field (create_fallback_translations E) ''status'' = Some (PStr ''fallback'')"
  by (simp add: target_languages_def create_fallback_translations_def translation_of_def
      payload_field_def no_content_entry_def)

text \<open>
  C8, as the code has it: when the Translation stage receives no upstream context, an
  empty one, or a list containing no record with \<open>formatted_summary\<close> (whenever its
  extraction finds no record), it returns the fallback bundle: each of hindi, arabic
  and hebrew is present with the content \<open>No content available for translation.\<close>,
  an empty images list and status \<open>fallback\<close>.
\<close>

theorem translation_fallback_bundle:
  "absent_context ''formatted_summary'' ctx \<or> extract_formatted_data ctx = None \<longrightarrow>
     translate_content E ctx = create_fallback_translations E
     \<and> map fst target_languages = [''hindi'', ''arabic'', ''hebrew'']
     \<and> (\<forall>lang \<in> set target_languages.
           translation_of (translate_content E ctx) (fst lang) = Some (no_content_entry (snd lang)))
     \<and> payload_field (translate_content E ctx) ''images'' = Some (PList [])
     \<and> payload_field (translate_content E ctx) ''status'' = Some (PStr ''fallback'')"
proof
  assume "absent_context ''formatted_summary'' ctx \<or> extract_formatted_data ctx = None"
  then have "extract_formatted_data ctx = None"
    using absent_formatted by blast
  then have eq: "translate_content E ctx = create_fallback_translations E"
    by (rule translate_content_fallback)
  show "translate_content E ctx = create_fallback_translations E
     \<and> map fst target_languages = [''hindi'', ''arabic'', ''hebrew'']
     \<and> (\<forall>lang \<in> set target_languages.
           translation_of (translate_content E ctx) (fst lang) = Some (no_content_entry (snd lang)))
     \<and> payload_field (translate_content E ctx) ''images'' = Some (PList [])
     \<and> payload_field (translate_content E ctx) ''status'' = Some (PStr ''fallback'')"
    unfolding eq using fallback_translations_entries [of E] by simp
qed

theorem translation_fallback_bundle_witness:
  "absent_context ''formatted_summary'' (PList [PDict [(''summary'', PStr ''Markets rose.'')]])
   \<and> translation_content (translate_content demo_env (PList [PDict [(''summary'', PStr ''Markets rose.'')]])) ''hindi''
       = Some (PStr ''No content available for translation.'')
   \<and> translation_content (translate_content demo_env (PList [PDict [(''summary'', PStr ''Markets rose.'')]])) ''arabic''
       = Some (PStr ''No content available for translation.'')
   \<and> translation_content (translate_content demo_env (PList [PDict [(''summary'', PStr ''Markets rose.'')]])) ''hebrew''
       = Some (PStr ''No content available for translation.'')"
proof -
  have h: "absent_context ''formatted_summary'' (PList [PDict [(''summary'', PStr ''Markets rose.'')]])"
    by (simp add: absent_context_def is_record_with_def has_key_def)
  let ?c = "PList [PDict [(''summary'', PStr ''Markets rose.'')]]"
  have every: "\<forall>lang \<in> set target_languages.
      translation_of (translate_content demo_env ?c) (fst lang) = Some (no_content_entry (snd lang))"
    using h translation_fallback_bundle [of ?c demo_env] by blast
  have content: "translation_content (translate_content demo_env ?c) code
                   = Some (PStr ''No content available for translation.'')"
    if "code \<in> fst ` set target_languages" for code
    using that every
    by (auto simp: translation_content_def no_content_entry_def payload_field_def)
  show ?thesis
    using h content by (simp add: target_languages_def)
qed

text \<open>
  C8 as stated fails: a record without \<open>formatted_summary\<close> is translated as an empty
  text, here by the service-unavailable notice of each language.
\<close>

theorem record_without_formatted_summary_is_translated:
  "\<not> has_key ''formatted_summary'' [(''summary'', PStr ''Markets rose.'')]
   \<and> translation_content (translate_content demo_env (PDict [(''summary'', PStr ''Markets rose.'')])) ''hindi''
       \<noteq> Some (PStr ''No content available for translation.'')
   \<and> payload_field (translate_content demo_env (PDict [(''summary'', PStr ''Markets rose.'')])) ''status'' = None"
  by (simp add: has_key_def translate_content_def translate_content_body_def
      extract_formatted_data_def dict_get_def target_languages_def translate_entry_def
      translate_to_language_def demo_env_def create_fallback_translation_def
      fallback_messages_def py_str_def translation_content_def translation_of_def Let_def
      payload_field_def)


subsection \<open>Distribution stage\<close>



















end
